theory Spec2Isabelle
  imports Complex_Main
begin

section \<open>Numbers and form inputs\<close>

text \<open>
  The script \<^verbatim>\<open>composite_cases.py\<close> computes with Python floats. They are modelled as
  \<^typ>\<open>real\<close>: every literal is the exact decimal it is written as (\<^verbatim>\<open>20e9\<close> is
  \<open>20 * 10 ^ 9\<close>), and \<^verbatim>\<open>+ - * / **\<close> are the exact operations; rounding and overflow
  are not modelled. Python's float division raises \<^verbatim>\<open>ZeroDivisionError\<close> on a zero
  divisor, and \<^verbatim>\<open>**\<close> raises \<^verbatim>\<open>OverflowError\<close> on a result too large for a float: in
  the blocks modelled here every divisor and every operand of \<^verbatim>\<open>**\<close> is a constant, and
  the divisors are shown to be non-zero.

  Each block of the \<^verbatim>\<open>if/elif\<close> chain on \<^verbatim>\<open>case_selection\<close> is one function from
  the value of its \<^verbatim>\<open>st.sidebar.number_input\<close> widget to a record of the variables the
  block assigns (a name used by several blocks carries the number of its case). The
  calls of \<^verbatim>\<open>log_step\<close> only display a variable with its unit; the unit is noted at
  the field.

  A call \<^verbatim>\<open>number_input(label, m)\<close> passes \<open>m\<close> in the position of Streamlit's
  \<^verbatim>\<open>min_value\<close>, which is also the value the widget starts with: the widget delivers
  no value below \<open>m\<close>. The loads at which the blocks are evaluated below are at or above
  that minimum.
\<close>

section \<open>Case 3: shearing of the closed trapezoid (lines 143-191)\<close>

text \<open>
  Input: the shear force in kN. \<^verbatim>\<open>Tz\<close> is in N, \<^verbatim>\<open>EI_yy\<close> in N.m2, the three flows in N/m.
\<close>

record case3_vars =
  Tz :: real
  I_BC :: real
  L_leg :: real
  EI_yy3 :: real
  q_open_B :: real
  q_correction :: real
  q_final_AC_mid :: real

definition case3 :: "real \<Rightarrow> case3_vars" where
  "case3 Tz_kN =
    (let Tz = Tz_kN * 1000;
         h = 0.3; b = 0.25;
         E_BC = 20 * 10 ^ 9; t_BC = 0.0015;
         I_BC = E_BC * (t_BC * h ^ 3 / 12);
         L_leg = sqrt (b ^ 2 + (h / 2) ^ 2);
         E_leg = (45 * 10 ^ 9 :: real); t_leg = (0.002 :: real);
         EI_yy = 405 * 10 ^ 3;
         q_open_B = 8.3 * 10 ^ 3;
         q_correction = 9.4 * 10 ^ 3;
         q_final_AC_mid = 1.1 * 10 ^ 3
     in \<lparr>Tz = Tz, I_BC = I_BC, L_leg = L_leg, EI_yy3 = EI_yy, q_open_B = q_open_B,
         q_correction = q_correction, q_final_AC_mid = q_final_AC_mid\<rparr>)"

section \<open>Case 4: torsion of the rectangular box (lines 196-221)\<close>

text \<open>
  Input: the torque in kNm. \<^verbatim>\<open>Mx\<close> is in N.m, \<^verbatim>\<open>q\<close> in N/m, \<^verbatim>\<open>J_torsion\<close> in N.m2 and
  \<^verbatim>\<open>u_warping\<close> in mm.
\<close>

record case4_vars =
  Mx4 :: real
  Ah :: real
  q4 :: real
  int_ds_mut :: real
  J_torsion4 :: real
  u_warping4 :: real

definition case4 :: "real \<Rightarrow> case4_vars" where
  "case4 Mx_kNm =
    (let Mx = Mx_kNm * 1000;
         h = 0.1; b = 0.2;
         Ah = h * b;
         q = Mx / (2 * Ah);
         int_ds_mut = 2 * (b / (20 * 10 ^ 9 * 0.002)) + 2 * (h / (35 * 10 ^ 9 * 0.001));
         J_torsion = (4 * Ah ^ 2) / int_ds_mut;
         u_warping = - 0.133
     in \<lparr>Mx4 = Mx, Ah = Ah, q4 = q, int_ds_mut = int_ds_mut,
         J_torsion4 = J_torsion, u_warping4 = u_warping\<rparr>)"

section \<open>Case 5: torsion of the open C-section (lines 226-250)\<close>

text \<open>
  Input: the torque in N.m. \<^verbatim>\<open>J_torsion\<close> is in N.m2, \<^verbatim>\<open>theta_prime\<close> in rad/m and the
  two stresses in MPa.
\<close>

record case5_vars =
  J_torsion5 :: real
  theta_prime5 :: real
  tau_web :: real
  tau_flange :: real

definition case5 :: "real \<Rightarrow> case5_vars" where
  "case5 Mx =
    (let b = 0.025; h = 0.05;
         tf = 0.0015; tw = 0.0025;
         Gf = 20 * 10 ^ 9; Gw = 15 * 10 ^ 9;
         J_torsion = (2 / 3 * Gf * b * tf ^ 3) + (1 / 3 * Gw * h * tw ^ 3);
         theta_prime = Mx / J_torsion;
         tau_web = Gw * tw * theta_prime / 10 ^ 6;
         tau_flange = Gf * tf * theta_prime / 10 ^ 6
     in \<lparr>J_torsion5 = J_torsion, theta_prime5 = theta_prime,
         tau_web = tau_web, tau_flange = tau_flange\<rparr>)"

section \<open>Case 6: torsion of the I-section (lines 255-297)\<close>

text \<open>
  Input: the torque in kN.mm, taken as N.m unchanged. \<^verbatim>\<open>A_swept\<close> is in m2, the two
  stresses in MPa and \<^verbatim>\<open>u_warping\<close> in mm.
\<close>

record case6_vars =
  J_torsion6 :: real
  theta_prime6 :: real
  tau_w :: real
  tau_f :: real
  A_swept :: real
  u_warping6 :: real

definition case6 :: "real \<Rightarrow> case6_vars" where
  "case6 Mx_knmm =
    (let Mx = Mx_knmm;
         h = 0.1; b = 0.05;
         tf = 0.001; tw = 0.005;
         Gf = 16.3 * 10 ^ 9; Gw = 20.9 * 10 ^ 9;
         term_f = (2 / 3) * Gf * b * tf ^ 3;
         term_w = (1 / 3) * Gw * h * tw ^ 3;
         J_torsion = term_f + term_w;
         theta_prime = Mx / J_torsion;
         tau_w = Gw * tw * theta_prime / 10 ^ 6;
         tau_f = Gf * tf * theta_prime / 10 ^ 6;
         A_swept = 0.5 * b * (h / 2);
         u_warping = - 2 * A_swept * theta_prime * 1000
     in \<lparr>J_torsion6 = J_torsion, theta_prime6 = theta_prime, tau_w = tau_w, tau_f = tau_f,
         A_swept = A_swept, u_warping6 = u_warping\<rparr>)"

section \<open>The walls of the three torsion sections\<close>

text \<open>
  A wall as the torsion formulas use it: its length along the midline, its shear modulus
  and its thickness. The sections are read off the blocks: the box of Case 4 has two
  covers of length \<^verbatim>\<open>b\<close> (20 GPa, 2 mm) and two webs of length \<^verbatim>\<open>h\<close> (35 GPa, 1 mm); the
  C-section of Case 5 and the I-section of Case 6 have two flanges of length \<^verbatim>\<open>b\<close>
  (\<^verbatim>\<open>Gf\<close>, \<^verbatim>\<open>tf\<close>) and one web of length \<^verbatim>\<open>h\<close> (\<^verbatim>\<open>Gw\<close>, \<^verbatim>\<open>tw\<close>).
\<close>

record wall =
  len :: real
  shear_modulus :: real
  thickness :: real

definition box_cover :: wall where
  "box_cover = \<lparr>len = 0.2, shear_modulus = 20 * 10 ^ 9, thickness = 0.002\<rparr>"

definition box_web :: wall where
  "box_web = \<lparr>len = 0.1, shear_modulus = 35 * 10 ^ 9, thickness = 0.001\<rparr>"

definition box_walls :: "wall list" where
  "box_walls = [box_cover, box_web, box_cover, box_web]"

definition c_flange :: wall where
  "c_flange = \<lparr>len = 0.025, shear_modulus = 20 * 10 ^ 9, thickness = 0.0015\<rparr>"

definition c_web :: wall where
  "c_web = \<lparr>len = 0.05, shear_modulus = 15 * 10 ^ 9, thickness = 0.0025\<rparr>"

definition c_walls :: "wall list" where
  "c_walls = [c_flange, c_web, c_flange]"

definition i_flange :: wall where
  "i_flange = \<lparr>len = 0.05, shear_modulus = 16.3 * 10 ^ 9, thickness = 0.001\<rparr>"

definition i_web :: wall where
  "i_web = \<lparr>len = 0.1, shear_modulus = 20.9 * 10 ^ 9, thickness = 0.005\<rparr>"

definition i_walls :: "wall list" where
  "i_walls = [i_flange, i_web, i_flange]"

section \<open>The formulas of the specification\<close>

text \<open>
  These definitions follow the words of the specification, to be compared with what the
  blocks compute. The loop integral of \<open>ds / (shear_modulus * thickness)\<close> is the sum
  over the walls of \<open>length / (shear_modulus * thickness)\<close>.
\<close>

definition loop_integral_spec :: "wall list \<Rightarrow> real" where
  "loop_integral_spec ws = (\<Sum>w\<leftarrow>ws. len w / (shear_modulus w * thickness w))"

definition GJ_closed_spec :: "real \<Rightarrow> wall list \<Rightarrow> real" where
  "GJ_closed_spec enclosed_area ws = 4 * enclosed_area ^ 2 / loop_integral_spec ws"

definition GJ_open_spec :: "wall list \<Rightarrow> real" where
  "GJ_open_spec ws = (\<Sum>w\<leftarrow>ws. (1 / 3) * shear_modulus w * len w * thickness w ^ 3)"

definition twist_rate_spec :: "real \<Rightarrow> real \<Rightarrow> real" where
  "twist_rate_spec torque GJ = torque / GJ"

definition tau_max_spec :: "wall \<Rightarrow> real \<Rightarrow> real" where
  "tau_max_spec w twist_rate = shear_modulus w * thickness w * twist_rate"

definition warping_spec :: "real \<Rightarrow> real \<Rightarrow> real" where
  "warping_spec swept_area twist_rate = - 2 * swept_area * twist_rate"

text \<open>
  The open shear flow at a position: \<open>Sz\<close> and \<open>Sy\<close> are the integrals of \<open>E t z ds\<close>
  and \<open>E t y ds\<close> from the start point to that position.
\<close>

definition q_open_spec :: "real \<Rightarrow> real \<Rightarrow> real \<Rightarrow> real \<Rightarrow> real \<Rightarrow> real \<Rightarrow> real" where
  "q_open_spec shear_load_z D EI_zz EI_yz Sz Sy =
    (shear_load_z / D) * (EI_zz * Sz - EI_yz * Sy)"

text \<open>
  The correction flow: the loop integral of \<open>p q_open ds\<close> is taken piecewise, over
  panels \<open>(p, Sz, Sy, ds)\<close> that give the perpendicular distance, the two first moments
  and the weight of each sample. On a straight wall \<open>p\<close> is constant and the first
  moments are quadratic in the arc length, so three weighted samples per wall give the
  integral exactly.
\<close>

definition q0_spec ::
  "real \<Rightarrow> real \<Rightarrow> real \<Rightarrow> real \<Rightarrow> (real \<times> real \<times> real \<times> real) list \<Rightarrow> real \<Rightarrow> real" where
  "q0_spec shear_load_z D EI_zz EI_yz panels enclosed_area =
    - (\<Sum>(p, Sz, Sy, ds)\<leftarrow>panels. p * q_open_spec shear_load_z D EI_zz EI_yz Sz Sy * ds)
      / (2 * enclosed_area)"

section \<open>Values of the blocks\<close>

lemmas wall_defs =
  box_walls_def box_cover_def box_web_def c_walls_def c_flange_def c_web_def
  i_walls_def i_flange_def i_web_def

lemma case4_J_torsion_value: "J_torsion4 (case4 Mx_kNm) = 1120000 / 11"
  by (simp add: case4_def Let_def power2_eq_square)

lemma case4_int_ds_mut_value: "int_ds_mut (case4 Mx_kNm) = 11 / 700000000"
  by (simp add: case4_def Let_def)

lemma case4_Ah_value: "Ah (case4 Mx_kNm) = 0.02"
  by (simp add: case4_def Let_def)

lemma case5_J_torsion_value: "J_torsion5 (case5 Mx) = 161 / 32"
  by (simp add: case5_def Let_def power3_eq_cube)

lemma case6_J_torsion_value: "J_torsion6 (case6 Mx_knmm) = 6572 / 75"
  by (simp add: case6_def Let_def power3_eq_cube)

text \<open>
  The divisors of Cases 4, 5 and 6 are constants other than zero, so these blocks raise
  no \<^verbatim>\<open>ZeroDivisionError\<close> and are total functions of their input.
\<close>

lemma torsion_divisors_nonzero:
  "2 * Ah (case4 Mx_kNm) \<noteq> 0" "int_ds_mut (case4 Mx_kNm) \<noteq> 0"
  "J_torsion5 (case5 Mx) \<noteq> 0" "J_torsion6 (case6 Mx_knmm) \<noteq> 0"
  by (simp_all add: case4_Ah_value case4_int_ds_mut_value case5_J_torsion_value
      case6_J_torsion_value)

text \<open>
  Both shear-flow formulas of the specification are proportional to the shear load.
\<close>

lemma q_open_spec_scale:
  "q_open_spec (c * F) D EI_zz EI_yz Sz Sy = c * q_open_spec F D EI_zz EI_yz Sz Sy"
  by (simp add: q_open_spec_def)

lemma q0_spec_scale:
  "q0_spec (c * F) D EI_zz EI_yz panels A = c * q0_spec F D EI_zz EI_yz panels A"
proof -
  have "(\<Sum>(p, Sz, Sy, ds)\<leftarrow>panels. p * q_open_spec (c * F) D EI_zz EI_yz Sz Sy * ds)
      = c * (\<Sum>(p, Sz, Sy, ds)\<leftarrow>panels. p * q_open_spec F D EI_zz EI_yz Sz Sy * ds)"
    by (induction panels) (auto simp: q_open_spec_def algebra_simps)
  then show ?thesis
    by (simp add: q0_spec_def)
qed

lemma case3_Tz_doubles: "Tz (case3 4) = 2 * Tz (case3 2)"
  by (simp add: case3_def Let_def)

section \<open>Torsional rigidity\<close>

text \<open>
  C1. The one closed single-cell section the script analyses in torsion is the box of
  Case 4. For every torque, the enclosed area is \<open>h * b = 0.1 * 0.2\<close>, the loop integral
  it forms is the sum over the four walls of \<open>length / (shear_modulus * thickness)\<close>, and
  the rigidity it returns is \<open>4 * enclosed_area\<^sup>2\<close> divided by that loop integral, which
  is 1120000/11 N.m2.
\<close>

theorem box_rigidity_is_closed_loop_formula:
  "Ah (case4 Mx_kNm) = 0.1 * 0.2
   \<and> int_ds_mut (case4 Mx_kNm) = loop_integral_spec box_walls
   \<and> J_torsion4 (case4 Mx_kNm) = GJ_closed_spec (0.1 * 0.2) box_walls
   \<and> J_torsion4 (case4 Mx_kNm) = GJ_closed_spec (Ah (case4 Mx_kNm)) box_walls
   \<and> J_torsion4 (case4 Mx_kNm) = 1120000 / 11"
  by (simp add: case4_def Let_def GJ_closed_spec_def loop_integral_spec_def wall_defs
      power2_eq_square)

text \<open>
  C2. The open sections the script analyses in torsion are the C-section of Case 5 and
  the I-section of Case 6. For every torque, the rigidity each returns is the sum over
  its walls of \<open>(1/3) * shear_modulus * length * thickness\<^sup>3\<close>, every wall with its own
  shear modulus and thickness.
\<close>

theorem open_sections_rigidity_is_strip_sum:
  "J_torsion5 (case5 Mx) = GJ_open_spec c_walls
   \<and> J_torsion6 (case6 Mx_knmm) = GJ_open_spec i_walls"
  by (simp add: case5_def case6_def Let_def GJ_open_spec_def wall_defs)

text \<open>
  C10. In Cases 5 and 6 the twist rate is the torque divided by the rigidity of the
  section (161/32 N.m2 for the C-section, 6572/75 N.m2 for the I-section, both the strip
  sum over the walls), and the stress reported for a wall, a number of MPa, is that
  wall's \<open>shear_modulus * thickness * twist_rate\<close> in Pa.
\<close>

theorem open_sections_max_shear_stress:
  "J_torsion5 (case5 Mx) = GJ_open_spec c_walls
   \<and> J_torsion5 (case5 Mx) = 161 / 32
   \<and> theta_prime5 (case5 Mx) = twist_rate_spec Mx (J_torsion5 (case5 Mx))
   \<and> theta_prime5 (case5 Mx) = Mx * 32 / 161
   \<and> tau_web (case5 Mx) * 10 ^ 6 = tau_max_spec c_web (theta_prime5 (case5 Mx))
   \<and> tau_flange (case5 Mx) * 10 ^ 6 = tau_max_spec c_flange (theta_prime5 (case5 Mx))
   \<and> J_torsion6 (case6 Mx_knmm) = GJ_open_spec i_walls
   \<and> J_torsion6 (case6 Mx_knmm) = 6572 / 75
   \<and> theta_prime6 (case6 Mx_knmm) = twist_rate_spec Mx_knmm (J_torsion6 (case6 Mx_knmm))
   \<and> theta_prime6 (case6 Mx_knmm) = Mx_knmm * 75 / 6572
   \<and> tau_w (case6 Mx_knmm) * 10 ^ 6 = tau_max_spec i_web (theta_prime6 (case6 Mx_knmm))
   \<and> tau_f (case6 Mx_knmm) * 10 ^ 6 = tau_max_spec i_flange (theta_prime6 (case6 Mx_knmm))"
  by (simp add: case5_def case6_def Let_def GJ_open_spec_def tau_max_spec_def
      twist_rate_spec_def wall_defs power3_eq_cube)

text \<open>
  C6. The box scenario is Case 4 at its initial input of 10 kNm: the torque is
  10000 N.m, the shear flow is \<open>torque / (2 * 0.02)\<close>, which is 250000 N/m, and the rigidity
  that the loop-integral formula gives for the four walls (covers 0.2 m, 20 GPa, 2 mm;
  webs 0.1 m, 35 GPa, 1 mm; enclosed area 0.02 m2) is within 1% of the rigidity the
  worked example computes, 1120000/11 N.m2 (about 101818).
\<close>

theorem box_torsion_scenario:
  "Mx4 (case4 10) = 10000
   \<and> q4 (case4 10) = Mx4 (case4 10) / (2 * 0.02)
   \<and> q4 (case4 10) = 250000
   \<and> J_torsion4 (case4 10) = 1120000 / 11
   \<and> \<bar>GJ_closed_spec 0.02 box_walls - J_torsion4 (case4 10)\<bar> \<le> J_torsion4 (case4 10) / 100"
  by (simp add: case4_def Let_def GJ_closed_spec_def loop_integral_spec_def wall_defs
      power2_eq_square)

section \<open>Shear flow of the closed trapezoid\<close>

text \<open>
  C9. Whatever the shear force entered, Case 3 yields \<open>EI_yy = 405e3\<close> N.m2, the open
  shear flow at B \<open>8.3e3\<close> N/m, the correction flux \<open>9.4e3\<close> N/m and the final shear
  flow at the middle of AC \<open>1.1e3\<close> N/m; whatever the torque entered, Case 4 yields the
  warping displacement \<open>-0.133\<close> mm.
\<close>

theorem literal_results_ignore_loads:
  "EI_yy3 (case3 Tz_kN) = 405000
   \<and> q_open_B (case3 Tz_kN) = 8300
   \<and> q_correction (case3 Tz_kN) = 9400
   \<and> q_final_AC_mid (case3 Tz_kN) = 1100
   \<and> u_warping4 (case4 Mx_kNm) = - 0.133"
  by (simp add: case3_def case4_def Let_def)

text \<open>
  C3, as amended. Case 3 converts the shear force entered to newtons and then reports
  the open shear flow at B as the number 8.3e3 N/m of the worked example, the same for
  every load; no running sum is formed.
\<close>

theorem q_open_B_is_literal:
  "Tz (case3 Tz_kN) = Tz_kN * 1000 \<and> q_open_B (case3 Tz_kN) = 8300"
  by (simp add: case3_def Let_def)

text \<open>
  The claim as stated fails: the formula \<open>(shear_load_z / D) * (EI_zz * Sz - EI_yz * Sy)\<close>
  doubles when the load doubles, whatever the section, and the value Case 3 reports at
  4 kN is the one it reports at 2 kN. No stiffnesses and first moments make the formula
  give both.
\<close>

theorem q_open_B_not_load_formula:
  "\<not> (\<exists>D EI_zz EI_yz Sz Sy.
        q_open_B (case3 2) = q_open_spec (Tz (case3 2)) D EI_zz EI_yz Sz Sy
      \<and> q_open_B (case3 4) = q_open_spec (Tz (case3 4)) D EI_zz EI_yz Sz Sy)"
proof
  assume "\<exists>D EI_zz EI_yz Sz Sy.
        q_open_B (case3 2) = q_open_spec (Tz (case3 2)) D EI_zz EI_yz Sz Sy
      \<and> q_open_B (case3 4) = q_open_spec (Tz (case3 4)) D EI_zz EI_yz Sz Sy"
  then obtain D EI_zz EI_yz Sz Sy where
    at2: "q_open_B (case3 2) = q_open_spec (Tz (case3 2)) D EI_zz EI_yz Sz Sy" and
    at4: "q_open_B (case3 4) = q_open_spec (Tz (case3 4)) D EI_zz EI_yz Sz Sy"
    by blast
  have "q_open_B (case3 4) = 2 * q_open_B (case3 2)"
    using at2 at4 by (simp add: case3_Tz_doubles q_open_spec_scale)
  then show False
    by (simp add: case3_def Let_def)
qed

text \<open>
  C4, as amended. Case 3 converts the shear force entered to newtons and then reports
  the correction flux as the number 9.4e3 N/m and the final shear flow at the middle of
  AC as the number 1.1e3 N/m of the worked example, the same for every load; no loop
  integral is formed.
\<close>

theorem closing_flux_is_literal:
  "Tz (case3 Tz_kN) = Tz_kN * 1000
   \<and> q_correction (case3 Tz_kN) = 9400
   \<and> q_final_AC_mid (case3 Tz_kN) = 1100"
  by (simp add: case3_def Let_def)

text \<open>
  The claim as stated fails: with the open flow of the specification, the correction
  flow \<open>- (loop integral of p q_open ds) / (2 * enclosed_area)\<close> doubles when the load
  doubles, whatever the section, and the flux Case 3 reports at 4 kN is the one it
  reports at 2 kN.
\<close>

theorem q_correction_not_loop_formula:
  "\<not> (\<exists>D EI_zz EI_yz panels A.
        q_correction (case3 2) = q0_spec (Tz (case3 2)) D EI_zz EI_yz panels A
      \<and> q_correction (case3 4) = q0_spec (Tz (case3 4)) D EI_zz EI_yz panels A)"
proof
  assume "\<exists>D EI_zz EI_yz panels A.
        q_correction (case3 2) = q0_spec (Tz (case3 2)) D EI_zz EI_yz panels A
      \<and> q_correction (case3 4) = q0_spec (Tz (case3 4)) D EI_zz EI_yz panels A"
  then obtain D EI_zz EI_yz panels A where
    at2: "q_correction (case3 2) = q0_spec (Tz (case3 2)) D EI_zz EI_yz panels A" and
    at4: "q_correction (case3 4) = q0_spec (Tz (case3 4)) D EI_zz EI_yz panels A"
    by blast
  have "q_correction (case3 4) = 2 * q_correction (case3 2)"
    using at2 at4 by (simp add: case3_Tz_doubles q0_spec_scale)
  then show False
    by (simp add: case3_def Let_def)
qed

section \<open>Warping\<close>

text \<open>
  C5, as amended. For the closed box of Case 4 the rigidity is 1120000/11 N.m2 for every
  torque, so the twist rate \<open>torque / rigidity\<close> grows with the torque entered, and the
  warping displacement reported at A is the number -0.133 mm of the worked example, the
  same for every torque; no swept area is formed.
\<close>

theorem box_warping_is_literal:
  "Mx4 (case4 Mx_kNm) = Mx_kNm * 1000
   \<and> J_torsion4 (case4 Mx_kNm) = 1120000 / 11
   \<and> twist_rate_spec (Mx4 (case4 Mx_kNm)) (J_torsion4 (case4 Mx_kNm)) = Mx_kNm * 11 / 1120
   \<and> u_warping4 (case4 Mx_kNm) = - 0.133"
  by (simp add: case4_def Let_def twist_rate_spec_def power2_eq_square)

text \<open>
  The claim as stated fails on the closed box: the twist rate at 20 kNm is twice the one
  at 10 kNm, and the warping displacement Case 4 reports is the same at both. No swept
  area makes \<open>-2 * swept_area * twist_rate\<close> give both.
\<close>

theorem box_warping_not_swept_area_formula:
  "\<not> (\<exists>swept_area.
        u_warping4 (case4 10) = 1000 * warping_spec swept_area
          (twist_rate_spec (Mx4 (case4 10)) (J_torsion4 (case4 10)))
      \<and> u_warping4 (case4 20) = 1000 * warping_spec swept_area
          (twist_rate_spec (Mx4 (case4 20)) (J_torsion4 (case4 20))))"
proof
  assume "\<exists>swept_area.
        u_warping4 (case4 10) = 1000 * warping_spec swept_area
          (twist_rate_spec (Mx4 (case4 10)) (J_torsion4 (case4 10)))
      \<and> u_warping4 (case4 20) = 1000 * warping_spec swept_area
          (twist_rate_spec (Mx4 (case4 20)) (J_torsion4 (case4 20)))"
  then obtain A where
    at10: "u_warping4 (case4 10) = 1000 * warping_spec A
          (twist_rate_spec (Mx4 (case4 10)) (J_torsion4 (case4 10)))" and
    at20: "u_warping4 (case4 20) = 1000 * warping_spec A
          (twist_rate_spec (Mx4 (case4 20)) (J_torsion4 (case4 20)))"
    by blast
  have "Mx4 (case4 20) = 2 * Mx4 (case4 10)"
    by (simp add: case4_def Let_def)
  then have "u_warping4 (case4 20) = 2 * u_warping4 (case4 10)"
    using at10 at20
    by (simp add: case4_J_torsion_value warping_spec_def twist_rate_spec_def)
  then show False
    by (simp add: case4_def Let_def)
qed

end
